theory Spec2Isabelle
  imports Main
begin

section \<open>Delivery behaviours of gopher\_behaviours (delivery.py)\<close>

text \<open>
  A shallow embedding of \<^verbatim>\<open>gopher_behaviours/delivery.py\<close>: the \<^verbatim>\<open>Waiting\<close> behaviour
  and the \<^verbatim>\<open>GopherDeliveries\<close> class. Objects are records, methods are functions that
  take the object and return it updated, Python exceptions are values of a sum type.
  The planner, the blackboard, the configuration and the behaviour classes of py\_trees,
  moveit, recovery and interactions live in other modules; what the methods of
  delivery.py read from them is a parameter or a field here.
\<close>

subsection \<open>Enumerations\<close>

text \<open>\<^verbatim>\<open>py_trees.Status\<close>, as far as delivery.py compares against it.\<close>

datatype Status = SUCCESS | FAILURE | RUNNING | INVALID

text \<open>\<^verbatim>\<open>class State(IntEnum)\<close>: IDLE = 0, WAITING = 1, TRAVELLING = 2, INVALID = 3.\<close>

datatype State = IDLE | WAITING | TRAVELLING | INVALID_State

text \<open>
  The constants of \<^verbatim>\<open>gopher_std_msgs.DeliveryErrorCodes\<close> that \<^verbatim>\<open>set_goal\<close> returns.
\<close>

datatype DeliveryErrorCodes =
  SUCCESS_Code | GOAL_EMPTY_NOTHING_TO_DO | FUBAR | ALREADY_ASSIGNED_A_GOAL

text \<open>Exceptions the methods can raise.\<close>

datatype error = AttributeError | IndexError

subsection \<open>Strings\<close>

definition apostrophe :: char where
  "apostrophe = CHR 0x27"

definition quoted :: "string \<Rightarrow> string" where
  "quoted s = apostrophe # s @ [apostrophe]"

text \<open>
  \<^verbatim>\<open>repr\<close> of a string of printable ASCII characters: between quotation marks when
  it holds an apostrophe and no quotation mark, between apostrophes otherwise; a
  backslash and the delimiter are written after a backslash.
\<close>

definition quotation_mark :: char where
  "quotation_mark = CHR 0x22"

definition backslash :: char where
  "backslash = CHR 0x5C"

definition repr_delimiter :: "string \<Rightarrow> char" where
  "repr_delimiter s =
     (if apostrophe \<in> set s \<and> quotation_mark \<notin> set s then quotation_mark
      else apostrophe)"

definition repr_char :: "char \<Rightarrow> char \<Rightarrow> string" where
  "repr_char q c = (if c = backslash \<or> c = q then [backslash, c] else [c])"

definition repr :: "string \<Rightarrow> string" where
  "repr s =
     (let q = repr_delimiter s in q # concat (map (repr_char q) s) @ [q])"

text \<open>
  \<^verbatim>\<open>"%s" % xs\<close> for a list of strings: Python prints the \<^verbatim>\<open>repr\<close> of each element,
  separated by a comma and a space, between brackets.
\<close>

fun join_comma :: "string list \<Rightarrow> string" where
  "join_comma [] = []"
| "join_comma [x] = x"
| "join_comma (x # y # ys) = x @ '', '' @ join_comma (y # ys)"

definition str_of_list :: "string list \<Rightarrow> string" where
  "str_of_list xs = ''['' @ join_comma (map repr xs) @ '']''"

subsection \<open>The Waiting behaviour\<close>

text \<open>\<^verbatim>\<open>gopher_std_msgs.Notification\<close>, with the three constants the file uses.\<close>

datatype NotificationValue = RETAIN_PREVIOUS | BUTTON_ON | BUTTON_OFF

record Notification =
  led_pattern :: NotificationValue
  button_confirm :: NotificationValue
  button_cancel :: NotificationValue
  message :: string

text \<open>
  The fields of a \<^verbatim>\<open>Waiting\<close> object. \<open>gate_name\<close>, \<open>gate_status\<close> and
  \<open>gate_feedback_message\<close> are \<^verbatim>\<open>self.name\<close>, \<^verbatim>\<open>self.status\<close> and
  \<^verbatim>\<open>self.feedback_message\<close>; \<open>notifications\<close> is what has been published on
  \<^verbatim>\<open>self._notify_publisher\<close>, oldest first.
\<close>

record Waiting =
  gate_name :: string
  location :: string
  dont_wait_for_hoomans :: bool
  go_requested :: bool
  gate_feedback_message :: string
  gate_status :: Status
  notifications :: "Notification list"

text \<open>
  \<^verbatim>\<open>Waiting.__init__\<close>. The status of a fresh py\_trees behaviour is INVALID (set by the
  base class constructor).
\<close>

definition Waiting_init :: "string \<Rightarrow> string \<Rightarrow> bool \<Rightarrow> Waiting" where
  "Waiting_init nm loc dont_wait_for_hoomans_flag =
     \<lparr> gate_name = nm,
       location = loc,
       dont_wait_for_hoomans = dont_wait_for_hoomans_flag,
       go_requested = False,
       gate_feedback_message =
         ''hanging around at '' @ quoted loc @ '' waiting for lazy bastards'',
       gate_status = INVALID,
       notifications = [] \<rparr>"

definition waiting_notification :: Notification where
  "waiting_notification =
     \<lparr> led_pattern = RETAIN_PREVIOUS, button_confirm = BUTTON_ON,
       button_cancel = RETAIN_PREVIOUS,
       message = ''at location, waiting for button press'' \<rparr>"

definition pressed_notification :: Notification where
  "pressed_notification =
     \<lparr> led_pattern = RETAIN_PREVIOUS, button_confirm = BUTTON_OFF,
       button_cancel = RETAIN_PREVIOUS,
       message = ''go button was pressed'' \<rparr>"

text \<open>
  \<^verbatim>\<open>Waiting.update\<close>. The first argument is \<^verbatim>\<open>self.blackboard.remaining_locations\<close>.
  The result is the returned status and the object after the call.
\<close>

definition update :: "string list \<Rightarrow> Waiting \<Rightarrow> Status \<times> Waiting" where
  "update remaining g =
     (let status0 = (if dont_wait_for_hoomans g then SUCCESS else RUNNING);
          fb = ''remaining: '' @ str_of_list remaining
      in if status0 = RUNNING \<and> go_requested g
         then (SUCCESS, g\<lparr>gate_feedback_message := fb\<rparr>)
         else (status0,
               g\<lparr>notifications := notifications g @ [waiting_notification],
                 gate_feedback_message := fb\<rparr>))"

text \<open>\<^verbatim>\<open>Waiting._go_button_callback\<close>: the handler of the "go" button topic.\<close>

definition go_button_callback :: "Waiting \<Rightarrow> Waiting" where
  "go_button_callback g =
     g\<lparr>go_requested := (if gate_status g = RUNNING then True else False),
       notifications := notifications g @ [pressed_notification]\<rparr>"

subsection \<open>Behaviours and the delivery tree\<close>

text \<open>
  The behaviours a tree of this file holds. \<^verbatim>\<open>moveit.MoveToGoal\<close>,
  \<^verbatim>\<open>interactions.CheckButtonPressed\<close> and \<^verbatim>\<open>recovery.HomebaseRecovery\<close> are classes of
  other modules: their constructor arguments and their status are kept. Any other
  behaviour the planner may return is \<open>OtherBehaviour\<close>.
\<close>

datatype Behaviour =
    MoveToGoal string Status
  | WaitingGate Waiting
  | CheckButtonPressed string string bool Status
  | HomebaseRecovery string Status
  | OtherBehaviour string Status

fun status :: "Behaviour \<Rightarrow> Status" where
  "status (MoveToGoal _ st) = st"
| "status (WaitingGate g) = gate_status g"
| "status (CheckButtonPressed _ _ _ st) = st"
| "status (HomebaseRecovery _ st) = st"
| "status (OtherBehaviour _ st) = st"

text \<open>
  A \<^verbatim>\<open>py_trees.Sequence\<close> or \<^verbatim>\<open>py_trees.OneshotSequence\<close> object: its name, its status,
  its children and the index of the child it is at (\<open>None\<close> before its first tick).
\<close>

record Composite =
  comp_name :: string
  comp_status :: Status
  children :: "Behaviour list"
  current_index :: "nat option"

text \<open>
  Modelled from the spec: \<^verbatim>\<open>current_child()\<close> is a method of py\_trees, not defined
  in delivery.py. The spec's words: the active leaf of the running delivery sequence.
  Here it is the child at the current index, \<^verbatim>\<open>None\<close> when there is none.
\<close>

definition current_child :: "Composite \<Rightarrow> Behaviour option" where
  "current_child c =
     (case current_index c of
        None \<Rightarrow> None
      | Some i \<Rightarrow> (if i < length (children c) then Some (children c ! i) else None))"

text \<open>
  The tree \<^verbatim>\<open>pre_tick_update\<close> builds: the selector "Deliver Unto Me" over the
  sequence "Cancellation" and the selector "Deliver or recover", which is over the
  oneshot sequence "Balli Balli Deliveries" and a \<^verbatim>\<open>HomebaseRecovery\<close>.
  \<open>root_id\<close> is \<^verbatim>\<open>root.id\<close>, the identifier py\_trees gives each behaviour it constructs.
\<close>

record Root =
  root_id :: nat
  root_name :: string
  root_status :: Status
  cancel_sequence :: Composite
  delivery_selector_name :: string
  delivery_selector_status :: Status
  delivery_sequence :: Composite
  delivery_failed :: Behaviour

subsection \<open>Collaborators\<close>

type_synonym Doors = "string list"

text \<open>
  The planner, as \<^verbatim>\<open>GopherDeliveries\<close> uses it: \<^verbatim>\<open>check_locations(locations)\<close>,
  \<^verbatim>\<open>create_tree(current_world, locations, include_parking_behaviours, doors)\<close> and the
  attribute \<^verbatim>\<open>current_location\<close>, which \<^verbatim>\<open>pre_tick_update\<close> writes. The methods are
  parameters; \<open>create_tree\<close> gets the planner's current location as its first argument,
  since a method can read the attributes of its object. Its result is \<open>None\<close> for
  Python's \<^verbatim>\<open>None\<close>.
\<close>

record Planner =
  check_locations :: "string list \<Rightarrow> bool"
  create_tree :: "string option \<Rightarrow> string \<Rightarrow> string list \<Rightarrow> bool \<Rightarrow> Doors
                  \<Rightarrow> Behaviour list option"
  current_location :: "string option"

text \<open>The blackboard variables the file reads and writes.\<close>

record Blackboard =
  is_waiting :: bool
  traversed_locations :: "string list"
  remaining_locations :: "string list"

text \<open>\<^verbatim>\<open>gopher_configuration.Configuration\<close>: the two names the file reads from it.\<close>

record Configuration =
  buttons_go :: string
  buttons_stop :: string

text \<open>\<^verbatim>\<open>gopher_std_msgs.Location\<close>: \<^verbatim>\<open>__init__\<close> reads the unique name only.\<close>

record Location =
  unique_name :: string
  description :: string

subsection \<open>GopherDeliveries\<close>

text \<open>
  The fields of a \<^verbatim>\<open>GopherDeliveries\<close> object.
  \<^item> \<open>doors\<close> is \<open>None\<close> while the attribute \<^verbatim>\<open>self.doors\<close> does not exist:
    \<^verbatim>\<open>__init__\<close> does not assign it.
  \<^item> \<open>incoming_goal\<close> is \<open>None\<close> for Python's \<^verbatim>\<open>None\<close>.
  \<^item> \<^verbatim>\<open>self.delivery_sequence\<close>, \<^verbatim>\<open>self.cancel_sequence\<close> and
    \<^verbatim>\<open>self.delivery_selector\<close> refer to nodes of the tree under \<^verbatim>\<open>self.root\<close>; they
    are assigned together with it and \<^verbatim>\<open>self.delivery_sequence\<close> is read only while
    \<^verbatim>\<open>self.root\<close> is not \<^verbatim>\<open>None\<close>, so the model reads them through \<open>root\<close>.
  \<^item> \<open>logwarn\<close> is what has been passed to \<^verbatim>\<open>rospy.logwarn\<close>, oldest first.
\<close>

record GopherDeliveries =
  blackboard :: Blackboard
  config :: Configuration
  root :: "Root option"
  state :: State
  locations :: "string list"
  has_a_new_goal :: bool
  feedback_message :: string
  old_goal_id :: "nat option"
  planner :: Planner
  always_assume_initialised :: bool
  incoming_goal :: "string list option"
  doors :: "Doors option"
  logwarn :: "string list"

text \<open>
  \<^verbatim>\<open>GopherDeliveries.__init__(name, planner, semantic_locations=None)\<close>. The blackboard
  is shared by all behaviours, so the constructor gets it as it is and sets
  \<^verbatim>\<open>is_waiting\<close>; the configuration is read from the parameter server.
\<close>

definition GopherDeliveries_init ::
  "Blackboard \<Rightarrow> Configuration \<Rightarrow> string \<Rightarrow> Planner \<Rightarrow> Location list option
   \<Rightarrow> GopherDeliveries" where
  "GopherDeliveries_init bb cfg nm pl semantic_locations =
     \<lparr> blackboard = bb\<lparr>is_waiting := False\<rparr>,
       config = cfg,
       root = None,
       state = IDLE,
       locations = [],
       has_a_new_goal = False,
       feedback_message = [],
       old_goal_id = None,
       planner = pl,
       always_assume_initialised = False,
       incoming_goal =
         (case semantic_locations of
            Some ls \<Rightarrow> Some (map unique_name ls)
          | None \<Rightarrow> None),
       doors = None,
       logwarn = [] \<rparr>"

text \<open>
  \<^verbatim>\<open>GopherDeliveries.set_goal(locations, always_assume_initialised, doors)\<close>. The result
  is the returned pair of error code and message, and the object after the call.
\<close>

definition set_goal ::
  "string list option \<Rightarrow> bool \<Rightarrow> Doors \<Rightarrow> GopherDeliveries
   \<Rightarrow> (DeliveryErrorCodes \<times> string) \<times> GopherDeliveries" where
  "set_goal locs aai ds s =
     (case locs of
        None \<Rightarrow> ((GOAL_EMPTY_NOTHING_TO_DO, ''goal empty, nothing to do.''), s)
      | Some ls \<Rightarrow>
          if ls = [] then ((GOAL_EMPTY_NOTHING_TO_DO, ''goal empty, nothing to do.''), s)
          else if state s = IDLE then
            (if check_locations (planner s) ls
             then ((SUCCESS_Code, ''assigned new goal''),
                   s\<lparr>incoming_goal := Some ls,
                     always_assume_initialised := aai,
                     doors := Some ds\<rparr>)
             else ((FUBAR, ''Received invalid locations''), s))
          else if state s = WAITING then
            ((SUCCESS_Code, ''pre-empting current goal''),
             s\<lparr>incoming_goal := Some ls,
               always_assume_initialised := aai,
               doors := Some ds\<rparr>)
          else ((ALREADY_ASSIGNED_A_GOAL, ''sorry, busy (already assigned a goal)''), s))"

text \<open>
  The flag \<^verbatim>\<open>pre_tick_update\<close> computes and passes to the planner:
  \<^verbatim>\<open>False if self.always_assume_initialised or self.root else True\<close>. A root object is
  true in a condition; \<^verbatim>\<open>None\<close> is false.
\<close>

definition include_parking_behaviours :: "GopherDeliveries \<Rightarrow> bool" where
  "include_parking_behaviours s =
     (if always_assume_initialised s \<or> root s \<noteq> None then False else True)"

text \<open>
  The tree built at lines 246 to 258, from the planner's children. The composites are
  fresh objects: their status is INVALID and they have no current child yet.
  \<open>new_id\<close> is the identifier py\_trees gives the new root.
\<close>

definition new_root :: "nat \<Rightarrow> Configuration \<Rightarrow> Behaviour list \<Rightarrow> Root" where
  "new_root new_id cfg cs =
     \<lparr> root_id = new_id,
       root_name = ''Deliver Unto Me'',
       root_status = INVALID,
       cancel_sequence =
         \<lparr> comp_name = ''Cancellation'',
           comp_status = INVALID,
           children = [CheckButtonPressed ''Cancel Pressed?'' (buttons_stop cfg) True INVALID,
                       HomebaseRecovery ''Delivery Cancelled'' INVALID],
           current_index = None \<rparr>,
       delivery_selector_name = ''Deliver or recover'',
       delivery_selector_status = INVALID,
       delivery_sequence =
         \<lparr> comp_name = ''Balli Balli Deliveries'',
           comp_status = INVALID,
           children = cs,
           current_index = None \<rparr>,
       delivery_failed = HomebaseRecovery ''Delivery Failed'' INVALID \<rparr>"

text \<open>\<^verbatim>\<open>not children\<close>: true of \<^verbatim>\<open>None\<close> and of the empty list.\<close>

definition no_children :: "Behaviour list option \<Rightarrow> bool" where
  "no_children r = (case r of None \<Rightarrow> True | Some cs \<Rightarrow> cs = [])"

definition invalid_goal_warning :: string where
  "invalid_goal_warning =
     ''Gopher Deliveries : Received a goal, but none of the locations were valid.''"

text \<open>
  The test \<^verbatim>\<open>self.incoming_goal is not None and self.incoming_goal\<close>, with the goal it
  holds for.
\<close>

definition pending_goal :: "GopherDeliveries \<Rightarrow> string list option" where
  "pending_goal s =
     (case incoming_goal s of
        None \<Rightarrow> None
      | Some g \<Rightarrow> (if g = [] then None else Some g))"

text \<open>
  \<^verbatim>\<open>GopherDeliveries.pre_tick_update(current_world)\<close>. Reading \<^verbatim>\<open>self.doors\<close> while the
  attribute does not exist raises AttributeError, before the planner is called and
  before anything is assigned.
\<close>

definition pre_tick_update ::
  "nat \<Rightarrow> string \<Rightarrow> GopherDeliveries \<Rightarrow> error + GopherDeliveries" where
  "pre_tick_update new_id current_world s =
     (case pending_goal s of
        Some g \<Rightarrow>
          (case doors s of
             None \<Rightarrow> Inl AttributeError
           | Some ds \<Rightarrow>
               let cs = create_tree (planner s) (current_location (planner s))
                          current_world g (include_parking_behaviours s) ds
               in if no_children cs
                  then Inr (s\<lparr>logwarn := logwarn s @ [invalid_goal_warning],
                              incoming_goal := None\<rparr>)
                  else Inr (s\<lparr>old_goal_id := map_option root_id (root s),
                              blackboard := (blackboard s)
                                \<lparr>traversed_locations :=
                                   (if root s = None then []
                                    else traversed_locations (blackboard s)),
                                 remaining_locations := g\<rparr>,
                              root := Some (new_root new_id (config s) (the cs)),
                              locations := g,
                              has_a_new_goal := True,
                              incoming_goal := None\<rparr>))
      | None \<Rightarrow>
          (case root s of
             Some r \<Rightarrow>
               if root_status r = SUCCESS
               then Inr (s\<lparr>planner := (planner s)
                             \<lparr>current_location :=
                                (if length (traversed_locations (blackboard s)) \<noteq> 0
                                 then Some (last (traversed_locations (blackboard s)))
                                 else None)\<rparr>,
                           old_goal_id := Some (root_id r),
                           root := None,
                           has_a_new_goal := True\<rparr>)
               else Inr (s\<lparr>has_a_new_goal := False\<rparr>)
           | None \<Rightarrow> Inr (s\<lparr>has_a_new_goal := False\<rparr>)))"

text \<open>\<^verbatim>\<open>GopherDeliveries.is_executing\<close> and \<^verbatim>\<open>succeeded_on_last_tick\<close>.\<close>

definition is_executing :: "GopherDeliveries \<Rightarrow> bool" where
  "is_executing s = (state s = WAITING \<or> state s = TRAVELLING)"

definition succeeded_on_last_tick :: "GopherDeliveries \<Rightarrow> bool" where
  "succeeded_on_last_tick s =
     (case root s of Some r \<Rightarrow> root_status r = SUCCESS | None \<Rightarrow> False)"

definition recovery_feedback :: string where
  "recovery_feedback =
     ''delivery failed, waiting for human to teleop us back home before cancelling''"

text \<open>
  \<^verbatim>\<open>GopherDeliveries.post_tock_update\<close>. In the travelling branch the state is assigned
  before \<^verbatim>\<open>remaining_locations[0]\<close> is read, so an IndexError leaves the object with the
  new state: the error comes with the object as the exception leaves it.
\<close>

definition post_tock_update ::
  "GopherDeliveries \<Rightarrow> (error \<times> GopherDeliveries) + GopherDeliveries" where
  "post_tock_update s =
     (let idle = s\<lparr>state := IDLE, feedback_message := ''idling''\<rparr>;
          trav = traversed_locations (blackboard s);
          rem = remaining_locations (blackboard s)
      in case root s of
           None \<Rightarrow> Inr idle
         | Some r \<Rightarrow>
             if root_status r = RUNNING then
               (if comp_status (delivery_sequence r) = RUNNING then
                  (case current_child (delivery_sequence r) of
                     Some (MoveToGoal _ _) \<Rightarrow>
                       (case rem of
                          [] \<Rightarrow> Inl (IndexError, s\<lparr>state := TRAVELLING\<rparr>)
                        | x # _ \<Rightarrow>
                            Inr (s\<lparr>state := TRAVELLING,
                                   feedback_message :=
                                     (if trav \<noteq> []
                                      then ''moving from '' @ quoted (last trav)
                                           @ '' to '' @ quoted x
                                      else ''moving to '' @ quoted x)\<rparr>))
                   | Some (WaitingGate g) \<Rightarrow>
                       Inr (s\<lparr>state := WAITING,
                              feedback_message := gate_feedback_message g\<rparr>)
                   | _ \<Rightarrow> Inr s)
                else Inr (s\<lparr>state := WAITING, feedback_message := recovery_feedback\<rparr>))
             else Inr idle)"

subsection \<open>The tick between the two updates\<close>

text \<open>
  Modelled from the spec: \<^verbatim>\<open>py_trees.OneshotSequence\<close> is not defined in delivery.py.
  The spec's words: once this sequence reaches a final (success/failure) status, it never
  re-evaluates its children on subsequent cycles; it returns the retained status until
  the whole root is discarded and replaced. The tick of a sequence that is not final is
  the tree engine's, a parameter here.
\<close>

definition tick_OneshotSequence :: "(Composite \<Rightarrow> Composite) \<Rightarrow> Composite \<Rightarrow> Composite" where
  "tick_OneshotSequence tick_Sequence c =
     (if comp_status c = SUCCESS \<or> comp_status c = FAILURE then c else tick_Sequence c)"

text \<open>
  What one tick does is given by the engine and the world: whether the tick reaches the
  deliver-or-recover branch, how a sequence that is not final ticks, what happens to the
  rest of the tree, and what the behaviours write on the blackboard.
\<close>

record TickInput =
  reaches_delivery :: bool
  tick_Sequence :: "Composite \<Rightarrow> Composite"
  tick_rest :: "Root \<Rightarrow> Root"
  tick_blackboard :: "Blackboard \<Rightarrow> Blackboard"

text \<open>
  Modelled from the spec: the tick of the root is the tree engine's, not in delivery.py.
  The spec's words: the root is replaced wholesale, never mutated in place, and only at
  the pre-tick boundary, never mid-tick; the delivery branch is a oneshot sequence. So a
  tick keeps the root's identity and reaches the delivery sequence through the oneshot
  tick only.
\<close>

definition tick_root :: "TickInput \<Rightarrow> Root \<Rightarrow> Root" where
  "tick_root e r =
     (tick_rest e r)
       \<lparr>root_id := root_id r,
        delivery_sequence :=
          (if reaches_delivery e
           then tick_OneshotSequence (tick_Sequence e) (delivery_sequence r)
           else delivery_sequence r)\<rparr>"

text \<open>
  Modelled from the spec: the loop that calls the object is not in delivery.py. The
  spec's words: \<^verbatim>\<open>advance_cycle\<close> runs immediately before the tick,
  \<^verbatim>\<open>classify_after_tick\<close> immediately after. An exception ends the run.
\<close>

record CycleInput =
  new_id :: nat
  current_world :: string
  tick_input :: TickInput

definition cycle :: "CycleInput \<Rightarrow> GopherDeliveries \<Rightarrow> error + GopherDeliveries" where
  "cycle e s =
     (case pre_tick_update (new_id e) (current_world e) s of
        Inl err \<Rightarrow> Inl err
      | Inr s1 \<Rightarrow>
          (case post_tock_update
                  (s1\<lparr>root := map_option (tick_root (tick_input e)) (root s1),
                      blackboard := tick_blackboard (tick_input e) (blackboard s1)\<rparr>) of
             Inl (err, _) \<Rightarrow> Inl err
           | Inr s2 \<Rightarrow> Inr s2))"

fun cycles :: "CycleInput list \<Rightarrow> GopherDeliveries \<Rightarrow> error + GopherDeliveries" where
  "cycles [] s = Inr s"
| "cycles (e # es) s =
     (case cycle e s of Inl err \<Rightarrow> Inl err | Inr s' \<Rightarrow> cycles es s')"

text \<open>
  Modelled from the spec: the behaviour that completes a leg (\<^verbatim>\<open>moveit.MoveToGoal\<close>) is
  not in delivery.py. The spec's words: after each completed leg, remaining loses its
  head and traversed gains it. With nothing remaining there is no leg to complete.
\<close>

definition complete_leg :: "Blackboard \<Rightarrow> Blackboard option" where
  "complete_leg bb =
     (case remaining_locations bb of
        [] \<Rightarrow> None
      | x # xs \<Rightarrow>
          Some (bb\<lparr>remaining_locations := xs,
                   traversed_locations := traversed_locations bb @ [x]\<rparr>))"

fun complete_legs :: "nat \<Rightarrow> Blackboard \<Rightarrow> Blackboard option" where
  "complete_legs 0 bb = Some bb"
| "complete_legs (Suc n) bb =
     (case complete_leg bb of None \<Rightarrow> None | Some bb' \<Rightarrow> complete_legs n bb')"

subsection \<open>An example configuration\<close>

text \<open>
  A planner that knows three locations and has a map of the world "hospital" only. For
  a goal of known locations in that world it returns a move and a wait per location,
  after a parking step when it is asked for one; for any other goal or world it returns
  the empty list.
\<close>

definition example_known :: "string list \<Rightarrow> bool" where
  "example_known ls = list_all (\<lambda>l. l \<in> set [''pharmacy'', ''ward_a'', ''ward_b'']) ls"

definition example_steps :: "string \<Rightarrow> Behaviour list" where
  "example_steps l = [MoveToGoal l INVALID, WaitingGate (Waiting_init l l False)]"

definition example_planner :: Planner where
  "example_planner =
     \<lparr> check_locations = example_known,
       create_tree = (\<lambda>cur w ls park ds.
          if example_known ls \<and> w = ''hospital''
          then Some ((if park then [OtherBehaviour ''park'' INVALID] else [])
                     @ concat (map example_steps ls))
          else Some []),
       current_location = None \<rparr>"

definition example_init :: GopherDeliveries where
  "example_init =
     GopherDeliveries_init
       \<lparr>is_waiting = True, traversed_locations = [], remaining_locations = []\<rparr>
       \<lparr>buttons_go = ''go'', buttons_stop = ''stop''\<rparr>
       ''deliveries'' example_planner None"

text \<open>The goal A = [pharmacy, ward\_a] is submitted to the idle object and assembled.\<close>

definition example_submitted :: GopherDeliveries where
  "example_submitted = snd (set_goal (Some [''pharmacy'', ''ward_a'']) False [] example_init)"

definition example_assembled :: GopherDeliveries where
  "example_assembled =
     (case pre_tick_update 1 ''hospital'' example_submitted of
        Inr s \<Rightarrow> s
      | Inl _ \<Rightarrow> example_submitted)"

text \<open>
  The statuses after some ticks of that tree: the robot has parked and moved to the
  pharmacy, and the gate there is running.
\<close>

definition example_at_gate :: "Root \<Rightarrow> Root" where
  "example_at_gate r =
     r\<lparr>root_status := RUNNING,
       delivery_selector_status := RUNNING,
       delivery_sequence :=
         (delivery_sequence r)
           \<lparr>comp_status := RUNNING,
            current_index := Some 2,
            children :=
              [OtherBehaviour ''park'' SUCCESS, MoveToGoal ''pharmacy'' SUCCESS,
               WaitingGate ((Waiting_init ''pharmacy'' ''pharmacy'' False)
                              \<lparr>gate_status := RUNNING\<rparr>)]
              @ example_steps ''ward_a''\<rparr>\<rparr>"

definition example_waiting :: GopherDeliveries where
  "example_waiting =
     (case post_tock_update
             (example_assembled
                \<lparr>root := map_option example_at_gate (root example_assembled),
                 blackboard := (blackboard example_assembled)
                    \<lparr>traversed_locations := [''pharmacy''],
                     remaining_locations := [''ward_a'']\<rparr>\<rparr>) of
        Inr s \<Rightarrow> s
      | Inl (_, s) \<Rightarrow> s)"

text \<open>The same object while the robot moves: the state a tick of a move step gives.\<close>

definition example_travelling :: GopherDeliveries where
  "example_travelling = example_waiting\<lparr>state := TRAVELLING\<rparr>"

text \<open>The delivery sequence of that tree has failed and the recovery step runs.\<close>

definition example_failed :: GopherDeliveries where
  "example_failed =
     example_waiting
       \<lparr>root := map_option
          (\<lambda>r. r\<lparr>delivery_sequence := (delivery_sequence r)\<lparr>comp_status := FAILURE\<rparr>,
                 delivery_failed := HomebaseRecovery ''Delivery Failed'' RUNNING\<rparr>)
          (root example_waiting)\<rparr>"

text \<open>
  A cycle whose tick reaches the delivery branch; a sequence that is not final would be
  restarted by it.
\<close>

definition example_cycle :: CycleInput where
  "example_cycle =
     \<lparr> new_id = 7, current_world = ''hospital'',
       tick_input =
         \<lparr> reaches_delivery = True,
           tick_Sequence = (\<lambda>c. c\<lparr>comp_status := RUNNING, current_index := Some 0\<rparr>),
           tick_rest = (\<lambda>r. r\<lparr>root_status := RUNNING\<rparr>),
           tick_blackboard = (\<lambda>bb. bb) \<rparr> \<rparr>"

text \<open>An object constructed with a preload of one semantic location.\<close>

definition example_preloaded :: GopherDeliveries where
  "example_preloaded =
     GopherDeliveries_init
       \<lparr>is_waiting = True, traversed_locations = [], remaining_locations = []\<rparr>
       \<lparr>buttons_go = ''go'', buttons_stop = ''stop''\<rparr>
       ''deliveries'' example_planner
       (Some [\<lparr>unique_name = ''pharmacy'', description = ''the pharmacy''\<rparr>])"

text \<open>A goal submitted to the idle object with \<^verbatim>\<open>always_assume_initialised\<close> set.\<close>

definition example_assume_initialised :: GopherDeliveries where
  "example_assume_initialised = snd (set_goal (Some [''pharmacy'']) True [] example_init)"

text \<open>A goal with an unknown location, submitted while the gate at the pharmacy runs.\<close>

definition example_unknown_submitted :: GopherDeliveries where
  "example_unknown_submitted = snd (set_goal (Some [''nowhere'']) False [] example_waiting)"

text \<open>The goal B = [ward\_b], submitted while the gate at the pharmacy runs.\<close>

definition example_preempting :: GopherDeliveries where
  "example_preempting = snd (set_goal (Some [''ward_b'']) False [] example_waiting)"

subsection \<open>Auxiliary notions\<close>

text \<open>
  The root is gone, or it is still the root with identifier \<open>k\<close> and its delivery
  sequence is \<open>d\<close>, children included.
\<close>

definition retained :: "nat \<Rightarrow> Composite \<Rightarrow> GopherDeliveries \<Rightarrow> bool" where
  "retained k d s =
     (case root s of
        None \<Rightarrow> True
      | Some r \<Rightarrow> root_id r = k \<and> delivery_sequence r = d)"

section \<open>Properties\<close>

subsection \<open>Evaluating the example configuration\<close>

lemmas example_defs =
  example_waiting_def example_assembled_def example_submitted_def example_init_def
  example_planner_def example_known_def example_steps_def example_at_gate_def
  example_travelling_def example_failed_def example_cycle_def example_preloaded_def
  example_assume_initialised_def example_unknown_submitted_def example_preempting_def
  GopherDeliveries_init_def set_goal_def pre_tick_update_def post_tock_update_def
  pending_goal_def include_parking_behaviours_def no_children_def new_root_def
  current_child_def Waiting_init_def

lemma example_waiting_state: "state example_waiting = WAITING"
  by (simp add: example_defs)

lemma example_waiting_root:
  "map_option root_id (root example_waiting) = Some 1"
  by (simp add: example_defs)

subsection \<open>Submitting a goal\<close>

text \<open>
  Claim C1, as the code has it. In state IDLE, \<^verbatim>\<open>set_goal\<close> with a non-empty list
  that \<^verbatim>\<open>planner.check_locations\<close> rejects returns the error code FUBAR with the
  message "Received invalid locations" and leaves the whole object unchanged, the
  pending goal included.
\<close>

theorem set_goal_idle_invalid_locations:
  assumes "state s = IDLE" and "ls \<noteq> []" and "\<not> check_locations (planner s) ls"
  shows "set_goal (Some ls) aai ds s = ((FUBAR, ''Received invalid locations''), s)"
  using assms by (simp add: set_goal_def)

theorem set_goal_idle_invalid_locations_witness:
  "state example_init = IDLE \<and> [''nowhere''] \<noteq> []
   \<and> \<not> check_locations (planner example_init) [''nowhere'']
   \<and> set_goal (Some [''nowhere'']) True [''door_1''] example_init
       = ((FUBAR, ''Received invalid locations''), example_init)"
  using set_goal_idle_invalid_locations [of example_init "[''nowhere'']" True "[''door_1'']"]
  by (simp add: example_init_def example_planner_def example_known_def
        GopherDeliveries_init_def)

text \<open>
  Claim C1 as stated fails in state WAITING: a goal with a location the planner does
  not know is accepted with SUCCESS and takes the pending-goal slot. In state IDLE the
  same goal is rejected, with the code FUBAR.
\<close>

theorem set_goal_waiting_unknown_location_accepted:
  "state example_init = IDLE
   \<and> fst (set_goal (Some [''nowhere'']) False [] example_init)
       = (FUBAR, ''Received invalid locations'')
   \<and> state example_waiting = WAITING
   \<and> \<not> check_locations (planner example_waiting) [''nowhere'']
   \<and> incoming_goal example_waiting = None
   \<and> fst (set_goal (Some [''nowhere'']) False [] example_waiting)
       = (SUCCESS_Code, ''pre-empting current goal'')
   \<and> incoming_goal (snd (set_goal (Some [''nowhere'']) False [] example_waiting))
       = Some [''nowhere'']"
  by (simp add: example_defs)

text \<open>
  Claim C9, as the code has it. In state TRAVELLING, \<^verbatim>\<open>set_goal\<close> with a non-empty
  list returns ALREADY\_ASSIGNED\_A\_GOAL and leaves the whole object unchanged: the root,
  the pending goal and the state.
\<close>

theorem set_goal_travelling_rejected:
  assumes "state s = TRAVELLING" and "ls \<noteq> []"
  shows "set_goal (Some ls) aai ds s =
           ((ALREADY_ASSIGNED_A_GOAL, ''sorry, busy (already assigned a goal)''), s)"
  using assms by (simp add: set_goal_def)

theorem set_goal_travelling_rejected_witness:
  "state example_travelling = TRAVELLING \<and> [''ward_b''] \<noteq> []
   \<and> set_goal (Some [''ward_b'']) False [] example_travelling =
       ((ALREADY_ASSIGNED_A_GOAL, ''sorry, busy (already assigned a goal)''),
        example_travelling)"
  using set_goal_travelling_rejected [of example_travelling "[''ward_b'']" False "[]"]
  by (simp add: example_travelling_def)

text \<open>
  Claim C9 as stated fails for the empty list: the first test of \<^verbatim>\<open>set_goal\<close> answers
  GOAL\_EMPTY\_NOTHING\_TO\_DO in every state, TRAVELLING included.
\<close>

theorem set_goal_travelling_empty_goal:
  "state example_travelling = TRAVELLING
   \<and> fst (set_goal (Some []) False [] example_travelling)
       = (GOAL_EMPTY_NOTHING_TO_DO, ''goal empty, nothing to do.'')"
  by (simp add: example_travelling_def set_goal_def)

subsection \<open>The cycle before the tick\<close>

text \<open>
  Claim C2, as the code has it. With a pending goal, the flag \<^verbatim>\<open>pre_tick_update\<close>
  passes to the planner as \<^verbatim>\<open>include_parking_behaviours\<close> is true if and only if no
  root exists and \<^verbatim>\<open>always_assume_initialised\<close> is false. The call returns, and what it
  does follows the planner's answer at that flag: a warning and the same root for an
  empty answer, a tree over exactly the answered children otherwise.
\<close>

theorem include_parking_behaviours_flag:
  assumes "pending_goal s = Some g" and "doors s = Some ds"
  shows "include_parking_behaviours s = (root s = None \<and> \<not> always_assume_initialised s)
    \<and> (\<exists>s'. pre_tick_update i w s = Inr s' \<and>
         (let cs = create_tree (planner s) (current_location (planner s)) w g
                     (root s = None \<and> \<not> always_assume_initialised s) ds
          in if no_children cs
             then root s' = root s \<and> logwarn s' = logwarn s @ [invalid_goal_warning]
             else map_option (children \<circ> delivery_sequence) (root s') = cs
                  \<and> logwarn s' = logwarn s))"
proof -
  have flag: "include_parking_behaviours s = (root s = None \<and> \<not> always_assume_initialised s)"
    by (auto simp: include_parking_behaviours_def)
  show ?thesis
    unfolding flag [symmetric]
    using assms
    by (auto simp: pre_tick_update_def Let_def no_children_def new_root_def
             split: option.splits)
qed

theorem include_parking_behaviours_flag_witness:
  "pending_goal example_submitted = Some [''pharmacy'', ''ward_a'']
   \<and> doors example_submitted = Some []
   \<and> include_parking_behaviours example_submitted
   \<and> (\<exists>s'. pre_tick_update 1 ''hospital'' example_submitted = Inr s'
         \<and> map_option (children \<circ> delivery_sequence) (root s')
             = Some (OtherBehaviour ''park'' INVALID
                     # example_steps ''pharmacy'' @ example_steps ''ward_a''))"
proof -
  have p: "pending_goal example_submitted = Some [''pharmacy'', ''ward_a'']"
    and d: "doors example_submitted = Some []"
    and r: "root example_submitted = None"
    and a: "\<not> always_assume_initialised example_submitted"
    by (simp_all add: example_defs)
  have c: "create_tree (planner example_submitted)
             (current_location (planner example_submitted)) ''hospital''
             [''pharmacy'', ''ward_a''] True []
           = Some (OtherBehaviour ''park'' INVALID
                   # example_steps ''pharmacy'' @ example_steps ''ward_a'')"
    by (simp add: example_submitted_def example_init_def example_planner_def
          example_known_def GopherDeliveries_init_def set_goal_def)
  from include_parking_behaviours_flag [OF p d, of 1 "''hospital''"] p d r a c
  show ?thesis by (auto simp: no_children_def)
qed

text \<open>
  Claim C2 as stated fails when no root exists and the robot is assumed initialised:
  "no root or not assumed initialised" is true there, and the flag is false; the tree
  the example planner returns has no parking step.
\<close>

theorem include_parking_behaviours_not_disjunction:
  "root example_assume_initialised = None
   \<and> always_assume_initialised example_assume_initialised
   \<and> pending_goal example_assume_initialised = Some [''pharmacy'']
   \<and> include_parking_behaviours example_assume_initialised
       \<noteq> (root example_assume_initialised = None
            \<or> \<not> always_assume_initialised example_assume_initialised)
   \<and> (case pre_tick_update 1 ''hospital'' example_assume_initialised of
         Inr s' \<Rightarrow> map_option (children \<circ> delivery_sequence) (root s')
                     = Some (example_steps ''pharmacy'')
       | Inl _ \<Rightarrow> False)"
  by (simp add: example_defs)

text \<open>
  Claim C7. With a pending goal for which the planner returns nothing (\<^verbatim>\<open>None\<close> or
  the empty list), \<^verbatim>\<open>pre_tick_update\<close> logs a warning and clears the pending goal, and
  changes nothing else: the root, the state and the blackboard are as before and no tree
  is built. With the slot cleared, the next call does not ask the planner again.
\<close>

theorem empty_decomposition_clears_goal:
  assumes "pending_goal s = Some g" and "doors s = Some ds"
    and "no_children (create_tree (planner s) (current_location (planner s)) w g
                        (include_parking_behaviours s) ds)"
  shows "pre_tick_update i w s =
           Inr (s\<lparr>logwarn := logwarn s @ [invalid_goal_warning], incoming_goal := None\<rparr>)
    \<and> pending_goal (s\<lparr>logwarn := logwarn s @ [invalid_goal_warning],
                      incoming_goal := None\<rparr>) = None
    \<and> logwarn (s\<lparr>logwarn := logwarn s @ [invalid_goal_warning],
                 incoming_goal := None\<rparr>) \<noteq> logwarn s"
  using assms by (simp add: pre_tick_update_def pending_goal_def)

theorem empty_decomposition_clears_goal_witness:
  "pending_goal example_unknown_submitted = Some [''nowhere'']
   \<and> doors example_unknown_submitted = Some []
   \<and> (\<exists>s'. pre_tick_update 2 ''hospital'' example_unknown_submitted = Inr s'
         \<and> root s' = root example_unknown_submitted
         \<and> state s' = WAITING
         \<and> incoming_goal s' = None
         \<and> logwarn s' = [invalid_goal_warning])"
proof -
  have p: "pending_goal example_unknown_submitted = Some [''nowhere'']"
    and d: "doors example_unknown_submitted = Some []"
    and n: "no_children (create_tree (planner example_unknown_submitted)
              (current_location (planner example_unknown_submitted)) ''hospital''
              [''nowhere''] (include_parking_behaviours example_unknown_submitted) [])"
    and st: "state example_unknown_submitted = WAITING"
    and lg: "logwarn example_unknown_submitted = []"
    by (simp_all add: example_defs)
  from empty_decomposition_clears_goal [OF p d n, of 2] p d st lg
  show ?thesis by simp
qed

text \<open>
  Claim C10. \<^verbatim>\<open>self.doors\<close> is assigned by an accepted \<^verbatim>\<open>set_goal\<close> only: the
  constructor leaves it unassigned, a rejected \<^verbatim>\<open>set_goal\<close> and \<^verbatim>\<open>pre_tick_update\<close>
  do not touch it. After a construction with a non-empty preload of semantic locations,
  \<^verbatim>\<open>pre_tick_update\<close> raises AttributeError; in general, with a pending goal,
  \<^verbatim>\<open>pre_tick_update\<close> returns if and only if the attribute has been assigned.
\<close>

theorem doors_assigned_by_accepted_goal_only:
  "doors (GopherDeliveries_init bb cfg nm pl sl) = None
   \<and> (ls \<noteq> [] \<longrightarrow>
        pre_tick_update i w (GopherDeliveries_init bb cfg nm pl (Some ls))
          = Inl AttributeError)
   \<and> (pending_goal s = Some g \<longrightarrow>
        ((\<exists>s'. pre_tick_update i w s = Inr s') \<longleftrightarrow> doors s \<noteq> None)
        \<and> (pre_tick_update i w s = Inl AttributeError \<longleftrightarrow> doors s = None))
   \<and> (\<forall>s'. pre_tick_update i w s = Inr s' \<longrightarrow> doors s' = doors s)
   \<and> (fst (fst (set_goal locs aai ds s)) \<noteq> SUCCESS_Code \<longrightarrow>
        doors (snd (set_goal locs aai ds s)) = doors s)
   \<and> (fst (fst (set_goal locs aai ds s)) = SUCCESS_Code \<longrightarrow>
        doors (snd (set_goal locs aai ds s)) = Some ds)"
proof -
  have a: "doors (GopherDeliveries_init bb cfg nm pl sl) = None"
    by (simp add: GopherDeliveries_init_def)
  have b: "ls \<noteq> [] \<longrightarrow>
        pre_tick_update i w (GopherDeliveries_init bb cfg nm pl (Some ls))
          = Inl AttributeError"
    by (simp add: pre_tick_update_def GopherDeliveries_init_def pending_goal_def)
  have c: "pending_goal s = Some g \<longrightarrow>
        ((\<exists>s'. pre_tick_update i w s = Inr s') \<longleftrightarrow> doors s \<noteq> None)
        \<and> (pre_tick_update i w s = Inl AttributeError \<longleftrightarrow> doors s = None)"
    by (auto simp: pre_tick_update_def Let_def split: option.splits)
  have d: "\<forall>s'. pre_tick_update i w s = Inr s' \<longrightarrow> doors s' = doors s"
    by (auto simp: pre_tick_update_def Let_def split: option.splits if_splits)
  have e: "fst (fst (set_goal locs aai ds s)) \<noteq> SUCCESS_Code \<longrightarrow>
        doors (snd (set_goal locs aai ds s)) = doors s"
    by (auto simp: set_goal_def split: option.splits)
  have f: "fst (fst (set_goal locs aai ds s)) = SUCCESS_Code \<longrightarrow>
        doors (snd (set_goal locs aai ds s)) = Some ds"
    by (auto simp: set_goal_def split: option.splits)
  from a b c d e f show ?thesis by blast
qed

theorem doors_assigned_by_accepted_goal_only_witness:
  "pending_goal example_preloaded = Some [''pharmacy'']
   \<and> doors example_preloaded = None
   \<and> pre_tick_update 1 ''hospital'' example_preloaded = Inl AttributeError
   \<and> fst (fst (set_goal (Some [''ward_a'']) False [''door_1''] example_preloaded))
       = SUCCESS_Code
   \<and> doors (snd (set_goal (Some [''ward_a'']) False [''door_1''] example_preloaded))
       = Some [''door_1'']
   \<and> (\<exists>s'. pre_tick_update 1 ''hospital''
               (snd (set_goal (Some [''ward_a'']) False [''door_1''] example_preloaded))
             = Inr s')"
proof -
  let ?l = "\<lparr>unique_name = ''pharmacy'', description = ''the pharmacy''\<rparr>"
  let ?s = "snd (set_goal (Some [''ward_a'']) False [''door_1''] example_preloaded)"
  have p: "pending_goal example_preloaded = Some [''pharmacy'']"
    and ok: "fst (fst (set_goal (Some [''ward_a'']) False [''door_1''] example_preloaded))
               = SUCCESS_Code"
    and p': "pending_goal ?s = Some [''ward_a'']"
    by (simp_all add: example_preloaded_def example_planner_def example_known_def
          GopherDeliveries_init_def set_goal_def pending_goal_def)
  have pre: "example_preloaded =
      GopherDeliveries_init
       \<lparr>is_waiting = True, traversed_locations = [], remaining_locations = []\<rparr>
       \<lparr>buttons_go = ''go'', buttons_stop = ''stop''\<rparr>
       ''deliveries'' example_planner (Some [?l])"
    by (simp add: example_preloaded_def)
  have n: "[?l] \<noteq> []" by simp
  note t1 = doors_assigned_by_accepted_goal_only
      [of "\<lparr>is_waiting = True, traversed_locations = [], remaining_locations = []\<rparr>"
          "\<lparr>buttons_go = ''go'', buttons_stop = ''stop''\<rparr>"
          "''deliveries''" example_planner "Some [?l]" "[?l]" 1 "''hospital''"
          example_preloaded "[''pharmacy'']" "Some [''ward_a'']" False "[''door_1'']"]
  note t2 = doors_assigned_by_accepted_goal_only
      [of _ _ _ _ _ "[]" 1 "''hospital''" ?s "[''ward_a'']"]
  have d0: "doors example_preloaded = None"
    using t1 pre by simp
  have e1: "pre_tick_update 1 ''hospital'' example_preloaded = Inl AttributeError"
    using t1 pre n by simp
  have d1: "doors ?s = Some [''door_1'']"
    using t1 ok by blast
  have e2: "\<exists>s'. pre_tick_update 1 ''hospital'' ?s = Inr s'"
    using t2 p' d1 by simp
  from p d0 e1 ok d1 e2 show ?thesis by blast
qed

subsection \<open>The classification after the tick\<close>

text \<open>
  Claim C3, as the code has it. When the root is \<^verbatim>\<open>None\<close>, \<^verbatim>\<open>post_tock_update\<close> sets
  the state to IDLE and the feedback to "idling". When the root is running and the
  delivery sequence is not (the recovery or the cancel branch is the active one), it
  sets the state to WAITING and the feedback to "delivery failed, waiting for human to
  teleop us back home before cancelling".
\<close>

theorem post_tock_update_no_root_or_recovery:
  "(root s = None \<longrightarrow>
      post_tock_update s = Inr (s\<lparr>state := IDLE, feedback_message := ''idling''\<rparr>))
   \<and> (root s = Some r \<and> root_status r = RUNNING
        \<and> comp_status (delivery_sequence r) \<noteq> RUNNING \<longrightarrow>
      post_tock_update s =
        Inr (s\<lparr>state := WAITING,
               feedback_message :=
                 ''delivery failed, waiting for human to teleop us back home before cancelling''\<rparr>))"
  by (simp add: post_tock_update_def recovery_feedback_def)

theorem post_tock_update_no_root_or_recovery_witness:
  "root example_init = None
   \<and> post_tock_update example_init
       = Inr (example_init\<lparr>state := IDLE, feedback_message := ''idling''\<rparr>)
   \<and> (\<exists>r. root example_failed = Some r \<and> root_status r = RUNNING
          \<and> comp_status (delivery_sequence r) = FAILURE)
   \<and> post_tock_update example_failed =
        Inr (example_failed\<lparr>state := WAITING,
               feedback_message :=
                 ''delivery failed, waiting for human to teleop us back home before cancelling''\<rparr>)"
proof -
  have n: "root example_init = None"
    by (simp add: example_init_def GopherDeliveries_init_def)
  obtain r where r: "root example_failed = Some r" "root_status r = RUNNING"
      "comp_status (delivery_sequence r) = FAILURE"
    by (simp add: example_defs)
  from post_tock_update_no_root_or_recovery [of example_init]
       post_tock_update_no_root_or_recovery [of example_failed r] n r
  show ?thesis by simp
qed

text \<open>
  Claim C3 as stated fails when the root is \<^verbatim>\<open>None\<close>: an object that was WAITING and
  has no root is classified IDLE, with the feedback "idling".
\<close>

theorem post_tock_update_no_root_is_idle:
  "root (example_init\<lparr>state := WAITING\<rparr>) = None
   \<and> (case post_tock_update (example_init\<lparr>state := WAITING\<rparr>) of
         Inr s' \<Rightarrow> state s' = IDLE \<and> state s' \<noteq> WAITING \<and> feedback_message s' = ''idling''
       | Inl _ \<Rightarrow> False)"
  by (simp add: example_init_def GopherDeliveries_init_def post_tock_update_def)

subsection \<open>The gate\<close>

text \<open>
  Claim C8. A "go" signal that arrives while the gate's status is not RUNNING sets
  \<^verbatim>\<open>go_requested\<close> to false, so the next \<^verbatim>\<open>update\<close> of a gate that waits for humans
  returns RUNNING, not SUCCESS. The latch is true after a signal exactly when the gate
  was RUNNING at the signal; \<^verbatim>\<open>update\<close> does not change the latch and a new gate has
  it false.
\<close>

theorem go_signal_latch:
  "(gate_status g \<noteq> RUNNING \<longrightarrow>
      go_requested (go_button_callback g) = False
      \<and> (\<not> dont_wait_for_hoomans g \<longrightarrow>
           fst (update rem (go_button_callback g)) = RUNNING))
   \<and> (go_requested (go_button_callback g) \<longleftrightarrow> gate_status g = RUNNING)
   \<and> go_requested (snd (update rem g)) = go_requested g
   \<and> go_requested (Waiting_init nm loc flag) = False"
  by (simp add: go_button_callback_def update_def Let_def Waiting_init_def)

theorem go_signal_latch_witness:
  "gate_status ((Waiting_init ''wait'' ''pharmacy'' False)\<lparr>go_requested := True\<rparr>) \<noteq> RUNNING
   \<and> \<not> dont_wait_for_hoomans ((Waiting_init ''wait'' ''pharmacy'' False)\<lparr>go_requested := True\<rparr>)
   \<and> go_requested (go_button_callback
        ((Waiting_init ''wait'' ''pharmacy'' False)\<lparr>go_requested := True\<rparr>)) = False
   \<and> fst (update [''pharmacy'']
        (go_button_callback
           ((Waiting_init ''wait'' ''pharmacy'' False)\<lparr>go_requested := True\<rparr>))) = RUNNING"
  using go_signal_latch
          [of "(Waiting_init ''wait'' ''pharmacy'' False)\<lparr>go_requested := True\<rparr>"
              "[''pharmacy'']"]
  by (simp add: Waiting_init_def)

subsection \<open>Pre-emption\<close>

text \<open>
  Claim C5, as the code has it. In state WAITING, \<^verbatim>\<open>set_goal\<close> with a non-empty list
  B that \<^verbatim>\<open>planner.check_locations\<close> accepts is accepted, and B takes the pending-goal
  slot, whatever was pending; the root is not touched. If the planner then returns a
  non-empty list of children for B, the next \<^verbatim>\<open>pre_tick_update\<close> replaces the root by
  a tree whose delivery sequence holds exactly those children, sets
  \<^verbatim>\<open>remaining_locations\<close> and \<^verbatim>\<open>locations\<close> to B and clears the slot.
\<close>

theorem preempting_goal_assembled:
  assumes "state s = WAITING" and "B \<noteq> []" and "check_locations (planner s) B"
  shows "\<exists>s1.
           set_goal (Some B) aai ds s = ((SUCCESS_Code, ''pre-empting current goal''), s1)
           \<and> incoming_goal s1 = Some B
           \<and> root s1 = root s
           \<and> (create_tree (planner s) (current_location (planner s)) w B
                 (root s = None \<and> \<not> aai) ds = Some cs \<and> cs \<noteq> [] \<longrightarrow>
               (\<exists>s2. pre_tick_update i w s1 = Inr s2
                  \<and> root s2 = Some (new_root i (config s) cs)
                  \<and> map_option (children \<circ> delivery_sequence) (root s2) = Some cs
                  \<and> remaining_locations (blackboard s2) = B
                  \<and> locations s2 = B
                  \<and> incoming_goal s2 = None
                  \<and> old_goal_id s2 = map_option root_id (root s)))"
proof -
  let ?s1 = "s\<lparr>incoming_goal := Some B, always_assume_initialised := aai,
               doors := Some ds\<rparr>"
  have g: "set_goal (Some B) aai ds s = ((SUCCESS_Code, ''pre-empting current goal''), ?s1)"
    using assms(1,2) by (simp add: set_goal_def)
  have flag: "include_parking_behaviours ?s1 = (root s = None \<and> \<not> aai)"
    by (auto simp: include_parking_behaviours_def)
  have p: "pending_goal ?s1 = Some B"
    using assms(2) by (simp add: pending_goal_def)
  let ?s2 = "?s1\<lparr>old_goal_id := map_option root_id (root s),
                  blackboard := (blackboard s)
                    \<lparr>traversed_locations :=
                       (if root s = None then [] else traversed_locations (blackboard s)),
                     remaining_locations := B\<rparr>,
                  root := Some (new_root i (config s) cs),
                  locations := B,
                  has_a_new_goal := True,
                  incoming_goal := None\<rparr>"
  have u: "pre_tick_update i w ?s1 = Inr ?s2"
    if "create_tree (planner s) (current_location (planner s)) w B
          (root s = None \<and> \<not> aai) ds = Some cs" and "cs \<noteq> []"
    using that by (simp add: pre_tick_update_def p flag no_children_def)
  have c: "children (delivery_sequence (new_root i (config s) cs)) = cs"
    by (simp add: new_root_def)
  have asm: "create_tree (planner s) (current_location (planner s)) w B
                 (root s = None \<and> \<not> aai) ds = Some cs \<and> cs \<noteq> [] \<longrightarrow>
               (\<exists>s2. pre_tick_update i w ?s1 = Inr s2
                  \<and> root s2 = Some (new_root i (config s) cs)
                  \<and> map_option (children \<circ> delivery_sequence) (root s2) = Some cs
                  \<and> remaining_locations (blackboard s2) = B
                  \<and> locations s2 = B
                  \<and> incoming_goal s2 = None
                  \<and> old_goal_id s2 = map_option root_id (root s))"
  proof
    assume a: "create_tree (planner s) (current_location (planner s)) w B
                 (root s = None \<and> \<not> aai) ds = Some cs \<and> cs \<noteq> []"
    then have "pre_tick_update i w ?s1 = Inr ?s2" using u by blast
    then show "\<exists>s2. pre_tick_update i w ?s1 = Inr s2
                  \<and> root s2 = Some (new_root i (config s) cs)
                  \<and> map_option (children \<circ> delivery_sequence) (root s2) = Some cs
                  \<and> remaining_locations (blackboard s2) = B
                  \<and> locations s2 = B
                  \<and> incoming_goal s2 = None
                  \<and> old_goal_id s2 = map_option root_id (root s)"
      by (intro exI [of _ ?s2]) (simp add: c)
  qed
  have r: "incoming_goal ?s1 = Some B \<and> root ?s1 = root s"
    by simp
  from g r asm show ?thesis
    by (intro exI [of _ ?s1] conjI) (erule conjunct1 conjunct2 | assumption)+
qed

theorem preempting_goal_assembled_witness:
  "state example_waiting = WAITING \<and> [''ward_b''] \<noteq> []
   \<and> check_locations (planner example_waiting) [''ward_b'']
   \<and> (\<exists>s1.
        set_goal (Some [''ward_b'']) False [] example_waiting
          = ((SUCCESS_Code, ''pre-empting current goal''), s1)
        \<and> incoming_goal s1 = Some [''ward_b'']
        \<and> (\<exists>s2. pre_tick_update 2 ''hospital'' s1 = Inr s2
              \<and> map_option (children \<circ> delivery_sequence) (root s2)
                  = Some (example_steps ''ward_b'')
              \<and> remaining_locations (blackboard s2) = [''ward_b'']
              \<and> old_goal_id s2 = Some 1))"
proof -
  have st: "state example_waiting = WAITING"
    and rt: "map_option root_id (root example_waiting) = Some 1"
    and k: "check_locations (planner example_waiting) [''ward_b'']"
    and c: "create_tree (planner example_waiting) (current_location (planner example_waiting))
              ''hospital'' [''ward_b''] (root example_waiting = None \<and> \<not> False) []
            = Some (example_steps ''ward_b'')"
    and n: "example_steps ''ward_b'' \<noteq> []"
    by (simp_all add: example_defs)
  have b: "[''ward_b''] \<noteq> []" by simp
  from preempting_goal_assembled
         [OF st b k, of False "[]" "''hospital''" "example_steps ''ward_b''" 2]
       st rt k c n
  show ?thesis by auto
qed

text \<open>
  Claim C5 as stated fails when the planner has no decomposition for B. The goal
  B = [ward\_b], which the planner's \<^verbatim>\<open>check_locations\<close> accepts, is submitted in
  WAITING and accepted; the robot is then in a world the planner has no map of, the next
  \<^verbatim>\<open>pre_tick_update\<close> gets no children and only logs a warning, and the tree of goal A
  stays the root with A's remaining locations.
\<close>

theorem preempting_goal_not_assembled:
  "state example_waiting = WAITING
   \<and> check_locations (planner example_waiting) [''ward_b'']
   \<and> fst (set_goal (Some [''ward_b'']) False [] example_waiting)
       = (SUCCESS_Code, ''pre-empting current goal'')
   \<and> example_preempting = snd (set_goal (Some [''ward_b'']) False [] example_waiting)
   \<and> incoming_goal example_preempting = Some [''ward_b'']
   \<and> (case pre_tick_update 2 ''basement'' example_preempting of
         Inr s' \<Rightarrow> root s' = root example_waiting
                  \<and> map_option root_id (root s') = Some 1
                  \<and> remaining_locations (blackboard s') = [''ward_a'']
                  \<and> remaining_locations (blackboard s') \<noteq> [''ward_b'']
                  \<and> locations s' = [''pharmacy'', ''ward_a'']
                  \<and> logwarn s' = [invalid_goal_warning]
                  \<and> incoming_goal s' = None
       | Inl _ \<Rightarrow> False)"
  by (simp add: example_defs)

subsection \<open>Location bookkeeping\<close>

lemma complete_legs_take_drop:
  "n \<le> length (remaining_locations bb) \<Longrightarrow>
   complete_legs n bb =
     Some (bb\<lparr>remaining_locations := drop n (remaining_locations bb),
              traversed_locations :=
                traversed_locations bb @ take n (remaining_locations bb)\<rparr>)"
proof (induction n arbitrary: bb)
  case 0
  then show ?case by simp
next
  case (Suc n)
  then obtain x xs where rem: "remaining_locations bb = x # xs"
    by (cases "remaining_locations bb") auto
  let ?bb = "bb\<lparr>remaining_locations := xs,
                traversed_locations := traversed_locations bb @ [x]\<rparr>"
  have "complete_legs (Suc n) bb = complete_legs n ?bb"
    by (simp add: complete_leg_def rem)
  also have "\<dots> =
      Some (?bb\<lparr>remaining_locations := drop n (remaining_locations ?bb),
                traversed_locations :=
                  traversed_locations ?bb @ take n (remaining_locations ?bb)\<rparr>)"
    using Suc.prems rem by (intro Suc.IH) simp
  finally show ?case by (simp add: rem)
qed

text \<open>
  Claim C6, as the code has it. When \<^verbatim>\<open>pre_tick_update\<close> assembles a tree for the goal
  \<open>g\<close>, remaining becomes \<open>g\<close>, and traversed becomes empty if there was no root and is
  kept as it was if there was one. From there, \<open>n\<close> completed legs (at most as many as
  the goal has locations) move the first \<open>n\<close> locations of \<open>g\<close>, in order, from the head
  of remaining to the end of traversed. So the union of the two sets is the set of the
  goal together with what traversed held at assembly: exactly the set of the goal when
  there was no root.
\<close>

theorem remaining_traversed_bookkeeping:
  assumes "pending_goal s = Some g" and "doors s = Some ds"
    and "\<not> no_children (create_tree (planner s) (current_location (planner s)) w g
                           (include_parking_behaviours s) ds)"
    and "n \<le> length g"
    and "t0 = (if root s = None then [] else traversed_locations (blackboard s))"
  shows "\<exists>s' bb.
           pre_tick_update i w s = Inr s'
           \<and> traversed_locations (blackboard s') = t0
           \<and> remaining_locations (blackboard s') = g
           \<and> complete_legs n (blackboard s') = Some bb
           \<and> traversed_locations bb = t0 @ take n g
           \<and> remaining_locations bb = drop n g
           \<and> traversed_locations bb @ remaining_locations bb = t0 @ g
           \<and> set (remaining_locations bb) \<union> set (traversed_locations bb) = set g \<union> set t0
           \<and> (root s = None \<longrightarrow>
                set (remaining_locations bb) \<union> set (traversed_locations bb) = set g)"
proof -
  let ?bb0 = "(blackboard s)\<lparr>traversed_locations := t0, remaining_locations := g\<rparr>"
  obtain s' where s': "pre_tick_update i w s = Inr s'" "blackboard s' = ?bb0"
    using assms(1,2,3,5) by (simp add: pre_tick_update_def)
  have n: "n \<le> length (remaining_locations ?bb0)"
    using assms(4) by simp
  let ?bb = "?bb0\<lparr>remaining_locations := drop n g, traversed_locations := t0 @ take n g\<rparr>"
  have legs: "complete_legs n (blackboard s') = Some ?bb"
    using complete_legs_take_drop [OF n] s'(2) by simp
  have u: "set (drop n g) \<union> set (t0 @ take n g) = set g \<union> set t0"
  proof -
    have "set (take n g) \<union> set (drop n g) = set g"
      by (metis append_take_drop_id set_append)
    then show ?thesis by auto
  qed
  have e: "root s = None \<longrightarrow> set t0 = {}"
    using assms(5) by simp
  from s' legs u e show ?thesis by auto
qed

theorem remaining_traversed_bookkeeping_witness:
  "pending_goal example_submitted = Some [''pharmacy'', ''ward_a'']
   \<and> root example_submitted = None
   \<and> (1::nat) \<le> length [''pharmacy'', ''ward_a'']
   \<and> (\<exists>s' bb.
        pre_tick_update 1 ''hospital'' example_submitted = Inr s'
        \<and> complete_legs 1 (blackboard s') = Some bb
        \<and> traversed_locations bb = [''pharmacy'']
        \<and> remaining_locations bb = [''ward_a'']
        \<and> set (remaining_locations bb) \<union> set (traversed_locations bb)
            = set [''pharmacy'', ''ward_a''])"
proof -
  have p: "pending_goal example_submitted = Some [''pharmacy'', ''ward_a'']"
    and d: "doors example_submitted = Some []"
    and c: "\<not> no_children (create_tree (planner example_submitted)
                (current_location (planner example_submitted)) ''hospital''
                [''pharmacy'', ''ward_a''] (include_parking_behaviours example_submitted) [])"
    and r: "root example_submitted = None"
    by (simp_all add: example_defs)
  have n: "(1::nat) \<le> length [''pharmacy'', ''ward_a'']" by simp
  have t: "[] = (if root example_submitted = None then []
                 else traversed_locations (blackboard example_submitted))"
    using r by simp
  from remaining_traversed_bookkeeping [OF p d c n t, of 1] p r
  show ?thesis by auto
qed

text \<open>
  Claim C6 as stated fails at a pre-emption: the tree for the goal [ward\_b] is
  assembled while a root exists, traversed keeps the pharmacy of the goal before, and
  the union of remaining and traversed is not the set of the goal.
\<close>

theorem remaining_traversed_after_preemption:
  "root example_preempting \<noteq> None
   \<and> pending_goal example_preempting = Some [''ward_b'']
   \<and> (case pre_tick_update 2 ''hospital'' example_preempting of
         Inr s' \<Rightarrow>
           map_option root_id (root s') = Some 2
           \<and> locations s' = [''ward_b'']
           \<and> remaining_locations (blackboard s') = [''ward_b'']
           \<and> traversed_locations (blackboard s') = [''pharmacy'']
           \<and> set (remaining_locations (blackboard s'))
               \<union> set (traversed_locations (blackboard s')) \<noteq> set [''ward_b'']
       | Inl _ \<Rightarrow> False)"
  by (simp add: example_defs)

subsection \<open>The oneshot delivery sequence\<close>

lemma pre_tick_update_no_goal:
  assumes "pending_goal s = None"
  shows "\<exists>s'. pre_tick_update i w s = Inr s' \<and> pending_goal s' = None
           \<and> (root s' = None \<or> root s' = root s)"
  using assms
  by (auto simp: pre_tick_update_def pending_goal_def split: option.splits if_splits)

lemma tick_OneshotSequence_final:
  "comp_status d = SUCCESS \<or> comp_status d = FAILURE \<Longrightarrow> tick_OneshotSequence f d = d"
  by (auto simp: tick_OneshotSequence_def)

lemma tick_root_final:
  assumes "comp_status (delivery_sequence r) = SUCCESS
           \<or> comp_status (delivery_sequence r) = FAILURE"
  shows "root_id (tick_root e r) = root_id r
         \<and> delivery_sequence (tick_root e r) = delivery_sequence r"
  using assms by (simp add: tick_root_def tick_OneshotSequence_final)

lemma post_tock_update_not_running:
  assumes "root s = None
           \<or> (\<exists>r. root s = Some r \<and> comp_status (delivery_sequence r) \<noteq> RUNNING)"
  shows "\<exists>s'. post_tock_update s = Inr s' \<and> root s' = root s
               \<and> incoming_goal s' = incoming_goal s"
  using assms by (auto simp: post_tock_update_def Let_def)

lemma cycle_retained:
  assumes f: "comp_status d = SUCCESS \<or> comp_status d = FAILURE"
    and p: "pending_goal s = None" and r: "retained k d s"
  shows "\<exists>s'. cycle e s = Inr s' \<and> pending_goal s' = None \<and> retained k d s'"
proof -
  obtain s1 where s1: "pre_tick_update (new_id e) (current_world e) s = Inr s1"
    "pending_goal s1 = None" "root s1 = None \<or> root s1 = root s"
    using pre_tick_update_no_goal [OF p] by blast
  let ?t = "s1\<lparr>root := map_option (tick_root (tick_input e)) (root s1),
               blackboard := tick_blackboard (tick_input e) (blackboard s1)\<rparr>"
  have rt: "retained k d ?t"
    using s1(3) r f by (auto simp: retained_def tick_root_final split: option.splits)
  have nr: "root ?t = None
            \<or> (\<exists>r. root ?t = Some r \<and> comp_status (delivery_sequence r) \<noteq> RUNNING)"
    using rt f by (auto simp: retained_def split: option.splits)
  obtain s2 where s2: "post_tock_update ?t = Inr s2" "root s2 = root ?t"
    "incoming_goal s2 = incoming_goal ?t"
    using post_tock_update_not_running [OF nr] by blast
  have "cycle e s = Inr s2"
    using s1(1) s2(1) by (simp add: cycle_def)
  moreover have "pending_goal s2 = None"
    using s2(3) s1(2) by (simp add: pending_goal_def)
  moreover have "retained k d s2"
    using rt s2(2) by (simp add: retained_def)
  ultimately show ?thesis by blast
qed

lemma cycles_retained:
  assumes "comp_status d = SUCCESS \<or> comp_status d = FAILURE"
    and "pending_goal s = None" and "retained k d s"
  shows "\<exists>s'. cycles es s = Inr s' \<and> pending_goal s' = None \<and> retained k d s'"
  using assms
proof (induction es arbitrary: s)
  case Nil
  then show ?case by simp
next
  case (Cons e es)
  from cycle_retained [OF Cons.prems] obtain s1 where
    "cycle e s = Inr s1" "pending_goal s1 = None" "retained k d s1" by blast
  with Cons.IH [OF Cons.prems(1), of s1] show ?case by simp
qed

text \<open>
  Claim C4. Take an object whose root's delivery sequence has the final status SUCCESS
  or FAILURE and that has no pending goal, and run any number of cycles
  (\<^verbatim>\<open>pre_tick_update\<close>, tick, \<^verbatim>\<open>post_tock_update\<close>) with no goal submitted. The cycles
  run without an exception, and after them the root is either discarded or still the
  same root with the same delivery sequence: the same status, the same children in the
  same state, none of them ticked again.
\<close>

theorem oneshot_sequence_retained:
  assumes "root s = Some r"
    and "comp_status (delivery_sequence r) = SUCCESS
         \<or> comp_status (delivery_sequence r) = FAILURE"
    and "pending_goal s = None"
  shows "\<exists>s'. cycles es s = Inr s' \<and>
           (case root s' of
              None \<Rightarrow> True
            | Some r' \<Rightarrow> root_id r' = root_id r
                         \<and> delivery_sequence r' = delivery_sequence r)"
proof -
  have "retained (root_id r) (delivery_sequence r) s"
    using assms(1) by (simp add: retained_def)
  from cycles_retained [OF assms(2) assms(3) this, of es]
  show ?thesis by (auto simp: retained_def)
qed

theorem oneshot_sequence_retained_witness:
  "pending_goal example_failed = None
   \<and> (\<exists>r. root example_failed = Some r
        \<and> comp_status (delivery_sequence r) = FAILURE
        \<and> (\<exists>s' r'. cycles [example_cycle, example_cycle] example_failed = Inr s'
              \<and> root s' = Some r'
              \<and> root_id r' = root_id r
              \<and> delivery_sequence r' = delivery_sequence r))"
proof -
  obtain r where r: "root example_failed = Some r"
      "comp_status (delivery_sequence r) = FAILURE"
    by (simp add: example_defs)
  have p: "pending_goal example_failed = None"
    by (simp add: example_defs)
  have f: "comp_status (delivery_sequence r) = SUCCESS
           \<or> comp_status (delivery_sequence r) = FAILURE"
    using r(2) by simp
  obtain s' where s': "cycles [example_cycle, example_cycle] example_failed = Inr s'"
    and c: "case root s' of None \<Rightarrow> True
            | Some r' \<Rightarrow> root_id r' = root_id r \<and> delivery_sequence r' = delivery_sequence r"
    using oneshot_sequence_retained [OF r(1) f p, of "[example_cycle, example_cycle]"]
    by blast
  have "root s' \<noteq> None"
    using s' by (auto simp: example_defs cycle_def tick_root_def tick_OneshotSequence_def
                     split: sum.splits)
  with c obtain r' where "root s' = Some r'" "root_id r' = root_id r"
      "delivery_sequence r' = delivery_sequence r"
    by (auto split: option.splits)
  with s' r p show ?thesis by blast
qed

end
